theory Spec2Isabelle
  imports Complex_Main
begin

section \<open>Python values used by \<^verbatim>\<open>extract5.py\<close>\<close>

text \<open>
  Python strings are modelled as \<^typ>\<open>string\<close>; each character stands for one code point
  below 256. A value that may be \<^verbatim>\<open>None\<close> is an \<^typ>\<open>'a option\<close>.
  \<^verbatim>\<open>str.strip()\<close> removes leading and trailing white space; the code points below 256
  for which \<^verbatim>\<open>str.isspace()\<close> holds are 9 to 13, 28 to 32, 133 and 160.
\<close>

definition isspace :: "char \<Rightarrow> bool" where
  "isspace c = (of_char c \<in> set [9, 10, 11, 12, 13, 28, 29, 30, 31, 32, 133, 160 :: nat])"

definition strip :: "string \<Rightarrow> string" where
  "strip s = rev (dropWhile isspace (rev (dropWhile isspace s)))"

text \<open>\<^verbatim>\<open>sep.join(parts)\<close>.\<close>

fun join :: "string \<Rightarrow> string list \<Rightarrow> string" where
  "join sep [] = []"
| "join sep [x] = x"
| "join sep (x # y # ys) = x @ sep @ join sep (y # ys)"

text \<open>
  What an f-string prints for a value that may be \<^verbatim>\<open>None\<close>:
  \<^verbatim>\<open>f"{x}"\<close> is the text \<^verbatim>\<open>None\<close> when \<^verbatim>\<open>x is None\<close>.
\<close>

definition format_text :: "string option \<Rightarrow> string" where
  "format_text x = (case x of None \<Rightarrow> ''None'' | Some s \<Rightarrow> s)"

text \<open>Truth value of \<^verbatim>\<open>elem.text\<close> in \<^verbatim>\<open>if elem.text:\<close>: neither None nor empty.\<close>

definition truthy :: "string option \<Rightarrow> bool" where
  "truthy x = (case x of None \<Rightarrow> False | Some s \<Rightarrow> s \<noteq> [])"

text \<open>\<^verbatim>\<open>needle in haystack\<close> on strings.\<close>

fun contains :: "string \<Rightarrow> string \<Rightarrow> bool" where
  "contains needle [] = (needle = [])"
| "contains needle (c # cs) = (take (length needle) (c # cs) = needle \<or> contains needle cs)"

section \<open>The parsed record: \<^verbatim>\<open>xml.etree.ElementTree\<close> elements\<close>

text \<open>
  An element has a tag, the text before its first child (\<^verbatim>\<open>None\<close> when there is none)
  and its children in document order. Attributes and tails are never read by the script.
\<close>

datatype element = Element (tag: string) (elem_text: "string option") (children: "element list")

text \<open>\<^verbatim>\<open>elem.iter()\<close>: the element itself, then its descendants, in document order.\<close>

fun iter :: "element \<Rightarrow> element list" where
  "iter (Element t x cs) = Element t x cs # concat (map iter cs)"

text \<open>
  \<^verbatim>\<open>elem.findall(".//t")\<close>: every proper descendant with tag \<open>t\<close>, in document order;
  \<^verbatim>\<open>elem.find(".//t")\<close>: the first of them, or \<^verbatim>\<open>None\<close>;
  \<^verbatim>\<open>elem.findall("t")\<close> and \<^verbatim>\<open>elem.find("t")\<close>: the same among the direct children.
\<close>

definition findall_desc :: "string \<Rightarrow> element \<Rightarrow> element list" where
  "findall_desc t e = filter (\<lambda>x. tag x = t) (concat (map iter (children e)))"

definition find_desc :: "string \<Rightarrow> element \<Rightarrow> element option" where
  "find_desc t e = (case findall_desc t e of [] \<Rightarrow> None | x # _ \<Rightarrow> Some x)"

definition findall_child :: "string \<Rightarrow> element \<Rightarrow> element list" where
  "findall_child t e = filter (\<lambda>x. tag x = t) (children e)"

definition find_child :: "string \<Rightarrow> element \<Rightarrow> element option" where
  "find_child t e = (case findall_child t e of [] \<Rightarrow> None | x # _ \<Rightarrow> Some x)"

section \<open>The normalizer: the parsing half of \<^verbatim>\<open>fetch_pmc_full_text\<close>\<close>

text \<open>Lines 59 to 64: title and journal name.\<close>

definition extract_title :: "string \<Rightarrow> element \<Rightarrow> string option" where
  "extract_title pmc_id xml =
     (case find_desc ''article-title'' xml of
        Some title_elem \<Rightarrow> elem_text title_elem
      | None \<Rightarrow> Some (''PMC_'' @ pmc_id))"

definition extract_journal :: "element \<Rightarrow> string option" where
  "extract_journal xml =
     (case find_desc ''journal-title'' xml of
        Some journal_elem \<Rightarrow> elem_text journal_elem
      | None \<Rightarrow> Some ''Unknown Journal'')"

text \<open>Lines 66 to 75: the loop over the name elements of the first contributor group.\<close>

fun authors_loop :: "element list \<Rightarrow> string list \<Rightarrow> string list" where
  "authors_loop [] authors = authors"
| "authors_loop (author # rest) authors =
     (case find_child ''surname'' author of
        None \<Rightarrow> authors_loop rest authors
      | Some surname \<Rightarrow>
          (case find_child ''given-names'' author of
             None \<Rightarrow> authors_loop rest authors
           | Some given_names \<Rightarrow>
               authors_loop rest
                 (authors @ [format_text (elem_text given_names) @ '' '' @
                             format_text (elem_text surname)])))"

definition extract_authors :: "element \<Rightarrow> string list" where
  "extract_authors xml =
     (case find_desc ''contrib-group'' xml of
        None \<Rightarrow> []
      | Some contrib_group \<Rightarrow> authors_loop (findall_desc ''name'' contrib_group) [])"

text \<open>Lines 77 to 94: the publication date.\<close>

definition date_part :: "string \<Rightarrow> element \<Rightarrow> string list" where
  "date_part t pub_date =
     (case find_child t pub_date of
        None \<Rightarrow> []
      | Some part \<Rightarrow> (if truthy (elem_text part) then [the (elem_text part)] else []))"

definition extract_date :: "element \<Rightarrow> string" where
  "extract_date xml =
     (case find_desc ''pub-date'' xml of
        None \<Rightarrow> ''Unknown Date''
      | Some pub_date \<Rightarrow>
          (let date_parts = date_part ''year'' pub_date @ date_part ''month'' pub_date @
                            date_part ''day'' pub_date
           in if date_parts \<noteq> [] then join ''-'' date_parts else ''Unknown Date''))"

text \<open>Lines 96 to 112: abstract and keywords; both loops keep the stripped non-empty texts.\<close>

fun stripped_texts :: "element list \<Rightarrow> string list \<Rightarrow> string list" where
  "stripped_texts [] parts = parts"
| "stripped_texts (p # rest) parts =
     (case elem_text p of
        None \<Rightarrow> stripped_texts rest parts
      | Some s \<Rightarrow> (if s \<noteq> [] then stripped_texts rest (parts @ [strip s])
                  else stripped_texts rest parts))"

definition extract_abstract :: "element \<Rightarrow> string" where
  "extract_abstract xml =
     (case find_desc ''abstract'' xml of
        None \<Rightarrow> []
      | Some abstract_elem \<Rightarrow> join '' '' (stripped_texts (findall_desc ''p'' abstract_elem) []))"

definition extract_keywords :: "element \<Rightarrow> string list" where
  "extract_keywords xml =
     (case find_desc ''kwd-group'' xml of
        None \<Rightarrow> []
      | Some kwd_group \<Rightarrow> stripped_texts (findall_desc ''kwd'' kwd_group) [])"

text \<open>
  Lines 120 to 149: the body. Each section gives an optional heading line and one line per
  paragraph with text; a section that gives nothing is left out.
  (Lines 114 to 118 compute \<^verbatim>\<open>clean_title\<close>, which nothing reads.)
\<close>

fun paragraphs_loop :: "element list \<Rightarrow> string \<Rightarrow> string" where
  "paragraphs_loop [] section_text = section_text"
| "paragraphs_loop (p # rest) section_text =
     (case elem_text p of
        None \<Rightarrow> paragraphs_loop rest section_text
      | Some s \<Rightarrow> (if s \<noteq> [] then paragraphs_loop rest (section_text @ strip s @ [CHR 0x0A])
                  else paragraphs_loop rest section_text))"

definition section_heading :: "element \<Rightarrow> string" where
  "section_heading sect =
     (case find_child ''title'' sect of
        None \<Rightarrow> []
      | Some title_elem \<Rightarrow>
          (if truthy (elem_text title_elem)
           then [CHR 0x0A] @ ''## '' @ strip (the (elem_text title_elem)) @ [CHR 0x0A]
           else []))"

definition section_block :: "element \<Rightarrow> string" where
  "section_block sect = paragraphs_loop (findall_child ''p'' sect) (section_heading sect)"

fun sections_loop :: "element list \<Rightarrow> string list \<Rightarrow> string list" where
  "sections_loop [] full_text = full_text"
| "sections_loop (sect # rest) full_text =
     (if section_block sect \<noteq> [] then sections_loop rest (full_text @ [section_block sect])
      else sections_loop rest full_text)"

definition extract_body :: "element \<Rightarrow> string" where
  "extract_body xml =
     (case find_desc ''body'' xml of
        Some body \<Rightarrow>
          (let full_text = sections_loop (findall_desc ''sec'' body) []
           in if full_text \<noteq> [] then join [CHR 0x0A] full_text else ''No readable text found.'')
      | None \<Rightarrow> ''Full text not available for this article.'')"

text \<open>
  The metadata dictionary. \<^verbatim>\<open>title\<close> and \<^verbatim>\<open>journal\<close> are the \<^verbatim>\<open>.text\<close> of an
  element and so may be \<^verbatim>\<open>None\<close>; the other four are always built by the script.
\<close>

record metadata =
  title :: "string option"
  journal :: "string option"
  authors :: "string list"
  date :: string
  abstract :: string
  "keywords" :: "string list"

definition normalize :: "string \<Rightarrow> element \<Rightarrow> metadata \<times> string" where
  "normalize pmc_id xml =
     (\<lparr>title = extract_title pmc_id xml, journal = extract_journal xml,
       authors = extract_authors xml, date = extract_date xml,
       abstract = extract_abstract xml, keywords = extract_keywords xml\<rparr>,
      extract_body xml)"

section \<open>The two upstream requests\<close>

text \<open>
  \<^verbatim>\<open>requests.get\<close> either raises a \<^verbatim>\<open>RequestException\<close> (a transport error) or returns
  a response with a status code and a text. The text is represented by what its parser makes
  of it: \<^verbatim>\<open>response.json()\<close> and \<^verbatim>\<open>ET.fromstring\<close> either raise or return the parsed
  value.
\<close>

datatype exn = RequestException | ParseError | KeyError | TypeError | OSError

datatype 'a parsed = Malformed | Parsed 'a

datatype 'a response = TransportError | Response (status_code: nat) (payload: "'a parsed")

text \<open>
  Lines 9 to 44. A well-formed answer of the search endpoint is an object that may hold an
  object \<^verbatim>\<open>esearchresult\<close>, that may hold the list \<^verbatim>\<open>idlist\<close> of identifiers.
\<close>

type_synonym esearch_json = "string \<rightharpoonup> (string \<rightharpoonup> string list)"

definition fetch_pmc_ids :: "esearch_json response \<Rightarrow> string list" where
  "fetch_pmc_ids r =
     (case r of
        TransportError \<Rightarrow> []
      | Response status p \<Rightarrow>
          (if status \<noteq> 200 then []
           else (case p of
                   Malformed \<Rightarrow> []
                 | Parsed data \<Rightarrow>
                     (case data ''esearchresult'' of
                        None \<Rightarrow> []
                      | Some esearchresult \<Rightarrow>
                          (case esearchresult ''idlist'' of None \<Rightarrow> [] | Some pmc_ids \<Rightarrow> pmc_ids)))))"

text \<open>
  Lines 46 to 151. Nothing in the function catches an exception: a transport error and a text
  that is not well-formed XML leave it as exceptions. A status other than 200 gives the pair
  of \<^verbatim>\<open>None\<close> and a message.
\<close>

definition fetch_pmc_full_text ::
  "string \<Rightarrow> element response \<Rightarrow> exn + (metadata option \<times> string)" where
  "fetch_pmc_full_text pmc_id r =
     (case r of
        TransportError \<Rightarrow> Inl RequestException
      | Response status p \<Rightarrow>
          (if status = 200
           then (case p of
                   Malformed \<Rightarrow> Inl ParseError
                 | Parsed xml \<Rightarrow> Inr (Some (fst (normalize pmc_id xml)), snd (normalize pmc_id xml)))
           else Inr (None, ''Error retrieving full text.'')))"

section \<open>The collection writer: \<^verbatim>\<open>download_pmc_articles_for_pyserini\<close>\<close>

text \<open>
  The values of a Document: \<^verbatim>\<open>None\<close>, strings, lists and dictionaries (a dictionary as
  the list of its items, in insertion order).
\<close>

datatype json = JNull | JStr string | JList "json list" | JDict "(string \<times> json) list"

definition json_of_text :: "string option \<Rightarrow> json" where
  "json_of_text x = (case x of None \<Rightarrow> JNull | Some s \<Rightarrow> JStr s)"

text \<open>Lines 179 to 189: the dictionary \<^verbatim>\<open>doc\<close>.\<close>

definition make_doc :: "string \<Rightarrow> metadata \<Rightarrow> string \<Rightarrow> json" where
  "make_doc pmc_id md full_text =
     JDict [(''id'', JStr (''PMC'' @ pmc_id)),
            (''title'', json_of_text (title md)),
            (''journal'', json_of_text (journal md)),
            (''authors'', JList (map JStr (authors md))),
            (''date'', JStr (date md)),
            (''abstract'', JStr (abstract md)),
            (''keywords'', JList (map JStr (keywords md))),
            (''contents'', JStr full_text)]"

text \<open>Line 175: the test that skips an identifier.\<close>

definition skipped :: "metadata option \<Rightarrow> string \<Rightarrow> bool" where
  "skipped md full_text =
     (md = None \<or> contains ''Error'' full_text \<or> contains ''Full text not available'' full_text)"

text \<open>
  What the writer does, in order: console messages, requests to the fetch endpoint, lines
  written to the collection file (one \<^verbatim>\<open>json.dumps(doc)\<close> each) and pauses in seconds.
\<close>

datatype message = NoArticles | Found nat | Processing string | Skipping string
  | Added string | Saved nat

datatype event = Print message | Get string | OpenFile | Write json | Sleep real

text \<open>
  Lines 171 to 194: the loop. \<open>efetch\<close> is the answer of the fetch endpoint for each
  identifier. The loop stops at the first exception; \<^verbatim>\<open>continue\<close> on line 177 goes to the
  next identifier without reaching the pause on line 194.
\<close>

fun process_ids ::
  "(string \<Rightarrow> element response) \<Rightarrow> string list \<Rightarrow> event list \<Rightarrow> event list \<times> exn option" where
  "process_ids efetch [] trace = (trace, None)"
| "process_ids efetch (pmc_id # rest) trace =
     (case fetch_pmc_full_text pmc_id (efetch pmc_id) of
        Inl e \<Rightarrow> (trace @ [Print (Processing pmc_id), Get pmc_id], Some e)
      | Inr (md, full_text) \<Rightarrow>
          (if skipped md full_text
           then process_ids efetch rest
                  (trace @ [Print (Processing pmc_id), Get pmc_id, Print (Skipping pmc_id)])
           else process_ids efetch rest
                  (trace @ [Print (Processing pmc_id), Get pmc_id,
                            Write (make_doc pmc_id (the md) full_text),
                            Print (Added (''PMC'' @ pmc_id)), Sleep 0.34])))"

record world =
  esearch :: "esearch_json response"
  efetch :: "string \<Rightarrow> element response"
  can_open :: bool

text \<open>Lines 154 to 196. Opening the collection file is not guarded.\<close>

definition download_pmc_articles_for_pyserini :: "world \<Rightarrow> event list \<times> exn option" where
  "download_pmc_articles_for_pyserini w =
     (let pmc_ids = fetch_pmc_ids (esearch w) in
      if pmc_ids = [] then ([Print NoArticles], None)
      else if \<not> can_open w then ([Print (Found (length pmc_ids))], Some OSError)
      else (case process_ids (efetch w) pmc_ids [Print (Found (length pmc_ids)), OpenFile] of
              (trace, None) \<Rightarrow> (trace @ [Print (Saved (length pmc_ids))], None)
            | (trace, Some e) \<Rightarrow> (trace, Some e)))"

text \<open>The Documents of the collection file, line by line, and the requests made.\<close>

fun written :: "event list \<Rightarrow> json list" where
  "written [] = []"
| "written (Write doc # es) = doc # written es"
| "written (_ # es) = written es"

section \<open>The query runner: \<^verbatim>\<open>run_search\<close>\<close>

text \<open>
  A hit of the searcher carries an identifier and a score. A result is a dictionary whose
  values are the rank, the score, or values taken from a Document.
\<close>

datatype hit = Hit (docid: string) (score: real)

datatype pyval = PInt int | PFloat real | PJson json

type_synonym pydict = "(string \<times> json) list"

text \<open>
  Lines 258 to 269: the map from identifier to Document, one Document per line of the
  collection file. A line that is not JSON ends the function (\<^verbatim>\<open>return\<close>, here
  \<open>Inr None\<close>); \<^verbatim>\<open>doc['id']\<close> on a dictionary without that key, or on a value that is
  not a dictionary, raises, and nothing catches it. A Document stored under the key
  \<^verbatim>\<open>None\<close> is never found by a hit and is left out of the map.
\<close>

fun load_docs ::
  "json parsed list \<Rightarrow> (string \<rightharpoonup> pydict) \<Rightarrow> exn + (string \<rightharpoonup> pydict) option" where
  "load_docs [] raw_docs = Inr (Some raw_docs)"
| "load_docs (Malformed # rest) raw_docs = Inr None"
| "load_docs (Parsed (JDict doc) # rest) raw_docs =
     (case map_of doc ''id'' of
        None \<Rightarrow> Inl KeyError
      | Some (JStr i) \<Rightarrow> load_docs rest (raw_docs(i \<mapsto> doc))
      | Some JNull \<Rightarrow> load_docs rest raw_docs
      | Some _ \<Rightarrow> Inl TypeError)"
| "load_docs (Parsed _ # rest) raw_docs = Inl TypeError"

text \<open>\<^verbatim>\<open>data.get(key, default)\<close>.\<close>

definition get_field :: "pydict \<Rightarrow> string \<Rightarrow> string \<Rightarrow> pyval" where
  "get_field data key dflt =
     (case map_of data key of None \<Rightarrow> PJson (JStr dflt) | Some v \<Rightarrow> PJson v)"

text \<open>
  Lines 285 to 306, for the hit at index \<open>i\<close> of \<^verbatim>\<open>enumerate(hits)\<close>.
  \<^verbatim>\<open>if data:\<close> holds for a dictionary that is not empty.
\<close>

definition make_result :: "nat \<Rightarrow> hit \<Rightarrow> (string \<rightharpoonup> pydict) \<Rightarrow> (string \<times> pyval) list" where
  "make_result i h raw_docs =
     (case raw_docs (docid h) of
        Some (item # items) \<Rightarrow>
          [(''rank'', PInt (int i + 1)),
           (''doc_id'', PJson (JStr (docid h))),
           (''score'', PFloat (score h)),
           (''date'', get_field (item # items) ''date'' ''[No date]''),
           (''journal_name'', get_field (item # items) ''journal'' ''[No journal]''),
           (''authors'', get_field (item # items) ''authors'' ''[No authors]''),
           (''title'', get_field (item # items) ''title'' ''[No title]''),
           (''abstract'', get_field (item # items) ''abstract'' ''[No abstract]'')]
      | _ \<Rightarrow>
          [(''rank'', PInt (int i + 1)),
           (''doc_id'', PJson (JStr (docid h))),
           (''score'', PFloat (score h)),
           (''error'', PJson (JStr ''Not found in local data file''))])"

text \<open>
  Lines 310 to 318: the console lines for one hit. Formatting a value in an f-string never
  raises. For a hit found in the map, line 316 prints \<^verbatim>\<open>result['abstract'][:200]\<close>: the
  slice exists for a string and for a list, and raises \<^verbatim>\<open>TypeError\<close> for \<^verbatim>\<open>None\<close>
  and for a dictionary (for a dictionary, \<^verbatim>\<open>KeyError\<close> from Python 3.12 on). Nothing in
  the loop catches the exception. \<open>None\<close> here means that nothing was raised.
\<close>

definition print_hit :: "hit \<Rightarrow> (string \<rightharpoonup> pydict) \<Rightarrow> (string \<times> pyval) list \<Rightarrow> exn option" where
  "print_hit h raw_docs result =
     (case raw_docs (docid h) of
        Some (item # items) \<Rightarrow>
          (case map_of result ''abstract'' of
             None \<Rightarrow> Some KeyError
           | Some (PJson (JStr s)) \<Rightarrow> None
           | Some (PJson (JList xs)) \<Rightarrow> None
           | Some _ \<Rightarrow> Some TypeError)
      | _ \<Rightarrow> None)"

text \<open>
  Lines 284 to 318: the loop over \<^verbatim>\<open>enumerate(hits)\<close>. Each round builds the result,
  appends it and prints it; an exception from the printing ends the loop and the function.
\<close>

fun results_loop ::
  "nat \<Rightarrow> hit list \<Rightarrow> (string \<rightharpoonup> pydict) \<Rightarrow> (string \<times> pyval) list list
   \<Rightarrow> exn + (string \<times> pyval) list list" where
  "results_loop i [] raw_docs results = Inr results"
| "results_loop i (h # hits) raw_docs results =
     (case print_hit h raw_docs (make_result i h raw_docs) of
        Some e \<Rightarrow> Inl e
      | None \<Rightarrow> results_loop (Suc i) hits raw_docs (results @ [make_result i h raw_docs]))"

text \<open>
  Lines 245 to 332. The collection file is missing or holds its lines; the searcher raises or
  returns its hits. Saving the results (lines 321 to 328) does not change what is returned.
\<close>

datatype collection_file = FileNotFound | Lines "json parsed list"

datatype search_outcome = SearchError | Hits "hit list"

definition run_search ::
  "collection_file \<Rightarrow> search_outcome \<Rightarrow> exn + (string \<times> pyval) list list option" where
  "run_search file searched =
     (case file of
        FileNotFound \<Rightarrow> Inr None
      | Lines ls \<Rightarrow>
          (case load_docs ls Map.empty of
             Inl e \<Rightarrow> Inl e
           | Inr None \<Rightarrow> Inr None
           | Inr (Some raw_docs) \<Rightarrow>
               (case searched of
                  SearchError \<Rightarrow> Inr None
                | Hits hits \<Rightarrow>
                    (case results_loop 0 hits raw_docs [] of
                       Inl e \<Rightarrow> Inl e
                     | Inr results \<Rightarrow> Inr (Some results)))))"

section \<open>The collection file format: \<^verbatim>\<open>json.dumps\<close> and \<^verbatim>\<open>json.loads\<close>\<close>






text \<open>
  The decoder skips the white space of JSON (space, tab, line feed, carriage return) where
  the grammar allows it.
\<close>

definition json_ws :: "char \<Rightarrow> bool" where
  "json_ws c = (c = CHR '' '' \<or> c = CHR 0x09 \<or> c = CHR 0x0A \<or> c = CHR 0x0D)"

definition skip_ws :: "string \<Rightarrow> string" where
  "skip_ws s = dropWhile json_ws s"









definition has_child :: "string \<Rightarrow> element \<Rightarrow> bool" where
  "has_child t e = (\<exists>c \<in> set (children e). tag c = t)"

definition first_child_text :: "string \<Rightarrow> element \<Rightarrow> string option" where
  "first_child_text t e =
     (case filter (\<lambda>c. tag c = t) (children e) of [] \<Rightarrow> None | c # _ \<Rightarrow> elem_text c)"

definition author_entry :: "element \<Rightarrow> string" where
  "author_entry n = format_text (first_child_text ''given-names'' n) @ '' '' @
                    format_text (first_child_text ''surname'' n)"

fun assemble_date :: "string option \<Rightarrow> string option \<Rightarrow> string option \<Rightarrow> string" where
  "assemble_date None None None = ''Unknown Date''"
| "assemble_date (Some y) None None = y"
| "assemble_date None (Some m) None = m"
| "assemble_date None None (Some d) = d"
| "assemble_date (Some y) (Some m) None = y @ ''-'' @ m"
| "assemble_date (Some y) None (Some d) = y @ ''-'' @ d"
| "assemble_date None (Some m) (Some d) = m @ ''-'' @ d"
| "assemble_date (Some y) (Some m) (Some d) = y @ ''-'' @ m @ ''-'' @ d"

definition present_text :: "string \<Rightarrow> element \<Rightarrow> string option" where
  "present_text t e =
     (case first_child_text t e of None \<Rightarrow> None | Some s \<Rightarrow> if s = [] then None else Some s)"

definition contrib_a :: element where
  "contrib_a = Element ''contrib-group'' None
     [Element ''contrib'' None
        [Element ''name'' None
           [Element ''surname'' (Some ''Doe'') [], Element ''given-names'' (Some ''Jane'') []]],
      Element ''contrib'' None [Element ''name'' None [Element ''surname'' (Some ''Solo'') []]],
      Element ''contrib'' None [Element ''name'' None [Element ''given-names'' (Some ''Ann'') []]],
      Element ''contrib'' None
        [Element ''name'' None
           [Element ''given-names'' (Some ''Rick'') [], Element ''surname'' (Some ''Roe'') []]]]"

definition pub_date_a :: element where
  "pub_date_a = Element ''pub-date'' None [Element ''year'' (Some ''2020'') []]"

definition record_a :: element where
  "record_a = Element ''article'' None
     [Element ''front'' None
        [Element ''article-title'' None [Element ''italic'' (Some ''In vivo'') []],
         contrib_a, pub_date_a],
      Element ''body'' None
        [Element ''sec'' None
           [Element ''title'' (Some '' Intro '') [], Element ''p'' (Some ''Hello  '') []]]]"

abbreviation metadata_of :: "string \<Rightarrow> element \<Rightarrow> metadata" where
  "metadata_of pmc_id xml \<equiv> fst (normalize pmc_id xml)"

abbreviation body_of :: "string \<Rightarrow> element \<Rightarrow> string" where
  "body_of pmc_id xml \<equiv> snd (normalize pmc_id xml)"

definition record_b :: element where
  "record_b = Element ''article'' None
     [Element ''front'' None [Element ''article-title'' (Some ''A note'') []],
      Element ''body'' None [Element ''p'' (Some ''A short note without sections.'') []]]"

definition record_c :: element where
  "record_c = Element ''article'' None
     [Element ''front'' None [Element ''article-title'' (Some ''Front matter only'') []]]"

definition title_e :: element where
  "title_e = Element ''article-title'' None [Element ''italic'' (Some ''Candida'') []]"

definition journal_e :: element where
  "journal_e = Element ''journal-title'' None []"

definition record_e :: element where
  "record_e = Element ''article'' None
     [Element ''front'' None [Element ''journal-meta'' None [journal_e], title_e]]"

fun requests :: "event list \<Rightarrow> string list" where
  "requests [] = []"
| "requests (Get pmc_id # es) = pmc_id # requests es"
| "requests (_ # es) = requests es"

fun throttled :: "bool \<Rightarrow> event list \<Rightarrow> bool" where
  "throttled paused [] = True"
| "throttled paused (Get _ # es) = (paused \<and> throttled False es)"
| "throttled paused (Sleep _ # es) = throttled True es"
| "throttled paused (_ # es) = throttled paused es"

definition record_d :: element where
  "record_d = Element ''article'' None
     [Element ''front'' None [Element ''article-title'' (Some ''Measurement'') []],
      Element ''body'' None
        [Element ''sec'' None
           [Element ''title'' (Some ''Results'') [],
            Element ''p'' (Some ''Error bars show the standard deviation.'') []]]]"

definition upstream :: "string \<Rightarrow> element response" where
  "upstream pmc_id = (if pmc_id = ''100'' then Response 200 (Parsed record_a)
                      else Response 404 Malformed)"

definition search_answer :: "esearch_json response" where
  "search_answer =
     Response 200 (Parsed [''esearchresult'' \<mapsto> [''idlist'' \<mapsto> [''100'', ''200'', ''300'']]])"

definition world_transport :: world where
  "world_transport = \<lparr>esearch = search_answer,
     efetch = (\<lambda>pmc_id. if pmc_id = ''200'' then TransportError
                         else Response 200 (Parsed record_a)),
     can_open = True\<rparr>"

definition world_malformed :: world where
  "world_malformed = \<lparr>esearch = search_answer,
     efetch = (\<lambda>pmc_id. if pmc_id = ''200'' then Response 200 Malformed
                         else Response 200 (Parsed record_a)),
     can_open = True\<rparr>"

definition not_found :: "nat \<Rightarrow> hit \<Rightarrow> (string \<times> pyval) list" where
  "not_found k h =
     [(''rank'', PInt (int k + 1)), (''doc_id'', PJson (JStr (docid h))),
      (''score'', PFloat (score h)), (''error'', PJson (JStr ''Not found in local data file''))]"

definition result_scores :: "(string \<times> pyval) list list \<Rightarrow> real list" where
  "result_scores rs =
     List.map_filter (\<lambda>r. case map_of r ''score'' of Some (PFloat s) \<Rightarrow> Some s | _ \<Rightarrow> None) rs"

definition joined :: "pydict \<Rightarrow> (string \<times> pyval) list \<Rightarrow> bool" where
  "joined doc r =
     (\<forall>(key, key') \<in> set [(''date'', ''date''), (''journal'', ''journal_name''),
                          (''authors'', ''authors''), (''title'', ''title''),
                          (''abstract'', ''abstract'')].
        case map_of doc key of None \<Rightarrow> True | Some v \<Rightarrow> map_of r key' = Some (PJson v))"

definition abstract_prints :: "pydict \<Rightarrow> bool" where
  "abstract_prints doc =
     (case map_of doc ''abstract'' of
        Some JNull \<Rightarrow> False
      | Some (JDict items) \<Rightarrow> False
      | _ \<Rightarrow> True)"

definition collection_null :: "json parsed list" where
  "collection_null =
     [Parsed (JDict [(''id'', JStr ''PMC1''), (''title'', JStr ''A title''),
                     (''abstract'', JNull), (''contents'', JStr ''Text'')])]"

definition collection_a :: "json parsed list" where
  "collection_a =
     [Parsed (make_doc ''100'' (metadata_of ''100'' record_a) (body_of ''100'' record_a)),
      Parsed (make_doc ''200'' (metadata_of ''200'' record_b) (body_of ''200'' record_b)),
      Parsed (make_doc ''300'' (metadata_of ''300'' record_d) (body_of ''300'' record_d))]"

fun dict_of :: "json \<Rightarrow> pydict" where
  "dict_of (JDict items) = items"
| "dict_of _ = []"

definition raw_docs_a :: "string \<rightharpoonup> pydict" where
  "raw_docs_a =
     [''PMC100'' \<mapsto> dict_of (make_doc ''100'' (metadata_of ''100'' record_a) (body_of ''100'' record_a)),
      ''PMC200'' \<mapsto> dict_of (make_doc ''200'' (metadata_of ''200'' record_b) (body_of ''200'' record_b)),
      ''PMC300'' \<mapsto> dict_of (make_doc ''300'' (metadata_of ''300'' record_d) (body_of ''300'' record_d))]"





section \<open>Properties of the normalizer\<close>

lemma find_child_None: "find_child t e = None \<longleftrightarrow> \<not> has_child t e"
proof -
  have "find_child t e = None \<longleftrightarrow> filter (\<lambda>x. tag x = t) (children e) = []"
    by (simp add: find_child_def findall_child_def split: list.splits)
  then show ?thesis by (simp add: has_child_def filter_empty_conv)
qed

lemma find_child_Some:
  assumes "find_child t e = Some c"
  shows "has_child t e" and "first_child_text t e = elem_text c"
proof -
  from assms obtain rest where f: "filter (\<lambda>x. tag x = t) (children e) = c # rest"
    by (simp add: find_child_def findall_child_def split: list.splits)
  show "first_child_text t e = elem_text c" by (simp add: first_child_text_def f)
  have "find_child t e \<noteq> None" using assms by simp
  then show "has_child t e" by (simp add: find_child_None)
qed

lemma authors_loop_eq:
  "authors_loop names acc =
     acc @ map author_entry (filter (\<lambda>n. has_child ''surname'' n \<and> has_child ''given-names'' n) names)"
proof (induction names arbitrary: acc)
  case Nil
  then show ?case by simp
next
  case (Cons n names)
  show ?case
  proof (cases "find_child ''surname'' n")
    case None
    then have "\<not> has_child ''surname'' n" by (simp add: find_child_None)
    with None Cons show ?thesis by simp
  next
    case (Some s)
    note s = this
    show ?thesis
    proof (cases "find_child ''given-names'' n")
      case None
      then have "\<not> has_child ''given-names'' n" by (simp add: find_child_None)
      with None s Cons show ?thesis by simp
    next
      case (Some g)
      with s Cons find_child_Some[OF s] find_child_Some[OF Some] show ?thesis
        by (simp add: author_entry_def)
    qed
  qed
qed

text \<open>
  Claim C10. A name element of the first contributor group gives an author exactly when it
  has a surname child and a given-names child; the entry is the text of the first given-names
  child, a space and the text of the first surname child, and the entries keep document
  order. A name with only one of the two parts gives nothing. (A part without text is printed
  as \<^verbatim>\<open>None\<close>, as the f-string on line 74 does.)
\<close>

theorem authors_both_parts:
  "find_desc ''contrib-group'' xml = Some contrib_group \<Longrightarrow>
   authors (fst (normalize pmc_id xml)) =
     map author_entry
       (filter (\<lambda>n. has_child ''surname'' n \<and> has_child ''given-names'' n)
          (findall_desc ''name'' contrib_group))"
  by (simp add: normalize_def extract_authors_def authors_loop_eq)

theorem authors_both_parts_witness:
  "authors (fst (normalize ''100'' record_a)) = [''Jane Doe'', ''Rick Roe'']"
proof -
  have g: "find_desc ''contrib-group'' record_a = Some contrib_a"
    by code_simp
  have n: "map author_entry
       (filter (\<lambda>n. has_child ''surname'' n \<and> has_child ''given-names'' n)
          (findall_desc ''name'' contrib_a)) = [''Jane Doe'', ''Rick Roe'']"
    by code_simp
  show ?thesis using authors_both_parts [OF g, of "''100''"] n by simp
qed

lemma date_part_eq: "date_part t pd = (case present_text t pd of None \<Rightarrow> [] | Some s \<Rightarrow> [s])"
proof (cases "find_child t pd")
  case None
  then have "first_child_text t pd = None"
    by (simp add: find_child_def findall_child_def first_child_text_def split: list.splits)
  with None show ?thesis by (simp add: date_part_def present_text_def)
next
  case (Some c)
  from find_child_Some(2)[OF Some] Some show ?thesis
    by (cases "elem_text c") (simp_all add: date_part_def present_text_def truthy_def)
qed

lemma join_date_parts:
  "(let ps = (case y of None \<Rightarrow> [] | Some s \<Rightarrow> [s]) @ (case m of None \<Rightarrow> [] | Some s \<Rightarrow> [s]) @
             (case d of None \<Rightarrow> [] | Some s \<Rightarrow> [s])
    in if ps \<noteq> [] then join ''-'' ps else ''Unknown Date'') = assemble_date y m d"
  by (cases y; cases m; cases d) simp_all

text \<open>
  Claim C5. The date joins whichever of year, month and day are present in the first
  publication date (a child of that tag with a non-empty text), in that order, with a hyphen;
  without a publication date, or with none of the three present, the date is
  \<^verbatim>\<open>Unknown Date\<close>; with a year and neither a month nor a day child the date is the year
  string alone.
\<close>

theorem date_assembly:
  "(find_desc ''pub-date'' xml = None \<longrightarrow> date (fst (normalize pmc_id xml)) = ''Unknown Date'') \<and>
   (\<forall>pub_date. find_desc ''pub-date'' xml = Some pub_date \<longrightarrow>
      date (fst (normalize pmc_id xml)) =
        assemble_date (present_text ''year'' pub_date) (present_text ''month'' pub_date)
          (present_text ''day'' pub_date)) \<and>
   (\<forall>pub_date y. find_desc ''pub-date'' xml = Some pub_date \<and>
      present_text ''year'' pub_date = Some y \<and> \<not> has_child ''month'' pub_date \<and>
      \<not> has_child ''day'' pub_date \<longrightarrow> date (fst (normalize pmc_id xml)) = y)"
proof -
  have a: "date (fst (normalize pmc_id xml)) = ''Unknown Date''"
    if "find_desc ''pub-date'' xml = None"
    using that by (simp add: normalize_def extract_date_def)
  have b: "date (fst (normalize pmc_id xml)) =
        assemble_date (present_text ''year'' pd) (present_text ''month'' pd) (present_text ''day'' pd)"
    if "find_desc ''pub-date'' xml = Some pd" for pd
    using that join_date_parts [of "present_text ''year'' pd" "present_text ''month'' pd" "present_text ''day'' pd"]
    by (simp add: normalize_def extract_date_def date_part_eq)
  have n: "present_text t pd = None" if "\<not> has_child t pd" for t pd
    using that by (auto simp: present_text_def first_child_text_def has_child_def filter_empty_conv split: list.splits)
  have c: "date (fst (normalize pmc_id xml)) = y"
    if "find_desc ''pub-date'' xml = Some pd" "present_text ''year'' pd = Some y"
       "\<not> has_child ''month'' pd" "\<not> has_child ''day'' pd" for pd y
    using b [OF that(1)] that(2) n [OF that(3)] n [OF that(4)] by simp
  from a b c show ?thesis by blast
qed

theorem date_assembly_witness:
  "find_desc ''pub-date'' record_a = Some pub_date_a \<and>
   present_text ''year'' pub_date_a = Some ''2020'' \<and> \<not> has_child ''month'' pub_date_a \<and>
   \<not> has_child ''day'' pub_date_a \<and> date (fst (normalize ''100'' record_a)) = ''2020''"
proof -
  have h: "find_desc ''pub-date'' record_a = Some pub_date_a \<and>
     present_text ''year'' pub_date_a = Some ''2020'' \<and> \<not> has_child ''month'' pub_date_a \<and>
     \<not> has_child ''day'' pub_date_a"
    by code_simp
  with date_assembly [of record_a "''100''"] show ?thesis by blast
qed

text \<open>
  Claim C1, as stated, fails: the title is the text of the first title element, and an
  element whose content starts with a child element has no text, so the title is
  \<^verbatim>\<open>None\<close>.
\<close>

theorem title_null_counterexample:
  "find_desc ''article-title'' record_a \<noteq> None \<and> title (metadata_of ''100'' record_a) = None"
  by code_simp

text \<open>
  Claim C1, amended. A field whose element is absent from the record takes its default:
  the title \<^verbatim>\<open>PMC_\<close> followed by the identifier, the journal \<^verbatim>\<open>Unknown Journal\<close>, the
  authors and the keywords the empty list, the date \<^verbatim>\<open>Unknown Date\<close>, the abstract the
  empty string. When the title element or the journal element is present, the field is the
  text of the first such element: a string when the element has text, \<^verbatim>\<open>None\<close> when it
  has none. Authors, date, abstract and keywords are never \<^verbatim>\<open>None\<close> (in the model, by
  their types).
\<close>

theorem metadata_defaults:
  "(find_desc ''article-title'' xml = None \<longrightarrow>
      title (metadata_of pmc_id xml) = Some (''PMC_'' @ pmc_id)) \<and>
   (\<forall>e. find_desc ''article-title'' xml = Some e \<longrightarrow>
      title (metadata_of pmc_id xml) = elem_text e) \<and>
   (\<forall>e. find_desc ''article-title'' xml = Some e \<and> elem_text e = None \<longrightarrow>
      title (metadata_of pmc_id xml) = None) \<and>
   (find_desc ''journal-title'' xml = None \<longrightarrow>
      journal (metadata_of pmc_id xml) = Some ''Unknown Journal'') \<and>
   (\<forall>e. find_desc ''journal-title'' xml = Some e \<longrightarrow>
      journal (metadata_of pmc_id xml) = elem_text e) \<and>
   (\<forall>e. find_desc ''journal-title'' xml = Some e \<and> elem_text e = None \<longrightarrow>
      journal (metadata_of pmc_id xml) = None) \<and>
   (find_desc ''contrib-group'' xml = None \<longrightarrow> authors (metadata_of pmc_id xml) = []) \<and>
   (find_desc ''pub-date'' xml = None \<longrightarrow> date (metadata_of pmc_id xml) = ''Unknown Date'') \<and>
   (find_desc ''abstract'' xml = None \<longrightarrow> abstract (metadata_of pmc_id xml) = []) \<and>
   (find_desc ''kwd-group'' xml = None \<longrightarrow> keywords (metadata_of pmc_id xml) = [])"
  by (simp add: normalize_def extract_title_def extract_journal_def extract_authors_def
      extract_date_def extract_abstract_def extract_keywords_def)

theorem metadata_defaults_witness:
  "find_desc ''article-title'' record_c = Some (Element ''article-title'' (Some ''Front matter only'') []) \<and>
   title (metadata_of ''100'' record_c) = Some ''Front matter only'' \<and>
   find_desc ''journal-title'' record_c = None \<and>
   journal (metadata_of ''100'' record_c) = Some ''Unknown Journal'' \<and>
   find_desc ''contrib-group'' record_c = None \<and> authors (metadata_of ''100'' record_c) = [] \<and>
   find_desc ''pub-date'' record_c = None \<and> date (metadata_of ''100'' record_c) = ''Unknown Date'' \<and>
   find_desc ''abstract'' record_c = None \<and> abstract (metadata_of ''100'' record_c) = [] \<and>
   find_desc ''kwd-group'' record_c = None \<and> keywords (metadata_of ''100'' record_c) = [] \<and>
   find_desc ''article-title'' record_e = Some title_e \<and> elem_text title_e = None \<and>
   title (metadata_of ''100'' record_e) = None \<and>
   find_desc ''journal-title'' record_e = Some journal_e \<and> elem_text journal_e = None \<and>
   journal (metadata_of ''100'' record_e) = None"
proof -
  have h: "find_desc ''article-title'' record_c = Some (Element ''article-title'' (Some ''Front matter only'') []) \<and>
     find_desc ''journal-title'' record_c = None \<and> find_desc ''contrib-group'' record_c = None \<and>
     find_desc ''pub-date'' record_c = None \<and> find_desc ''abstract'' record_c = None \<and>
     find_desc ''kwd-group'' record_c = None"
    by code_simp
  have e: "find_desc ''article-title'' record_e = Some title_e \<and> elem_text title_e = None \<and>
     find_desc ''journal-title'' record_e = Some journal_e \<and> elem_text journal_e = None"
    by code_simp
  from h metadata_defaults [of record_c "''100''"]
  have c: "title (metadata_of ''100'' record_c) = Some ''Front matter only'' \<and>
     journal (metadata_of ''100'' record_c) = Some ''Unknown Journal'' \<and>
     authors (metadata_of ''100'' record_c) = [] \<and>
     date (metadata_of ''100'' record_c) = ''Unknown Date'' \<and>
     abstract (metadata_of ''100'' record_c) = [] \<and> keywords (metadata_of ''100'' record_c) = []"
    by simp
  from e metadata_defaults [of record_e "''100''"]
  have n: "title (metadata_of ''100'' record_e) = None \<and> journal (metadata_of ''100'' record_e) = None"
    by simp
  from h e c n show ?thesis by simp
qed

text \<open>
  Claim C4, as stated, fails: a record with a body and no section gives
  \<^verbatim>\<open>No readable text found.\<close>, which is not the text given for a record without a body,
  and the writer does not skip it.
\<close>

theorem no_sections_counterexample:
  "find_desc ''body'' record_b \<noteq> None \<and>
   findall_desc ''sec'' (the (find_desc ''body'' record_b)) = [] \<and>
   body_of ''100'' record_b = ''No readable text found.'' \<and>
   body_of ''100'' record_b \<noteq> body_of ''100'' record_c \<and>
   \<not> skipped (Some (metadata_of ''100'' record_b)) (body_of ''100'' record_b) \<and>
   written (fst (process_ids (\<lambda>i. Response 200 (Parsed record_b)) [''100''] [])) =
     [make_doc ''100'' (metadata_of ''100'' record_b) ''No readable text found.'']"
  by code_simp

text \<open>
  Claim C4, amended. A record without a body container gives
  \<^verbatim>\<open>Full text not available for this article.\<close>, which the writer skips. A record with
  a body container and no section gives another text that is not empty,
  \<^verbatim>\<open>No readable text found.\<close>, which the writer does not skip.
\<close>

theorem body_sentinels:
  "(find_desc ''body'' xml = None \<longrightarrow>
      body_of pmc_id xml = ''Full text not available for this article.'' \<and>
      skipped md (body_of pmc_id xml)) \<and>
   (\<forall>body. find_desc ''body'' xml = Some body \<and> findall_desc ''sec'' body = [] \<longrightarrow>
      body_of pmc_id xml = ''No readable text found.'' \<and> body_of pmc_id xml \<noteq> [] \<and>
      \<not> skipped (Some (metadata_of pmc_id xml)) (body_of pmc_id xml))"
proof -
  have s: "contains ''Full text not available'' ''Full text not available for this article.''"
    by code_simp
  have n: "\<not> contains ''Error'' ''No readable text found.'' \<and>
    \<not> contains ''Full text not available'' ''No readable text found.''"
    by code_simp
  show ?thesis using s n
    by (simp add: normalize_def extract_body_def skipped_def)
qed

theorem body_sentinels_witness:
  "find_desc ''body'' record_c = None \<and>
   body_of ''100'' record_c = ''Full text not available for this article.'' \<and>
   skipped (Some (metadata_of ''100'' record_c)) (body_of ''100'' record_c) \<and>
   body_of ''100'' record_b = ''No readable text found.'' \<and>
   \<not> skipped (Some (metadata_of ''100'' record_b)) (body_of ''100'' record_b)"
proof -
  have c: "find_desc ''body'' record_c = None" by code_simp
  have b: "find_desc ''body'' record_b =
      Some (Element ''body'' None [Element ''p'' (Some ''A short note without sections.'') []]) \<and>
    findall_desc ''sec'' (Element ''body'' None [Element ''p'' (Some ''A short note without sections.'') []]) = []"
    by code_simp
  from body_sentinels [of record_c "''100''" "Some (metadata_of ''100'' record_c)"] c
       body_sentinels [of record_b "''100''"] b
  show ?thesis by blast
qed

section \<open>Properties of the collection writer\<close>

text \<open>
  Claim C3: an identifier is skipped when its fetch failed or its body is the
  unavailable-body sentinel, and every other identifier gives exactly one line. The test on
  line 175 looks for the word \<^verbatim>\<open>Error\<close> anywhere in the body text instead: the record
  below was fetched with status 200 and has a body of its own, which is none of the
  sentinel texts, and the writer skips it and writes no line, because a paragraph of the
  article holds the word.
\<close>

theorem error_word_skipped:
  "fetch_pmc_full_text ''100'' (Response 200 (Parsed record_d)) =
     Inr (Some (metadata_of ''100'' record_d), body_of ''100'' record_d) \<and>
   body_of ''100'' record_d \<noteq> ''Full text not available for this article.'' \<and>
   body_of ''100'' record_d \<noteq> ''Error retrieving full text.'' \<and>
   body_of ''100'' record_d \<noteq> ''No readable text found.'' \<and>
   process_ids (\<lambda>i. Response 200 (Parsed record_d)) [''100''] [] =
     ([Print (Processing ''100''), Get ''100'', Print (Skipping ''100'')], None) \<and>
   written (fst (process_ids (\<lambda>i. Response 200 (Parsed record_d)) [''100''] [])) = []"
  by code_simp

text \<open>
  The identifier lookup absorbs a transport error, a status other than 200 and a text that
  is not JSON: each gives the empty list.
\<close>

lemma fetch_pmc_ids_absorbs:
  "fetch_pmc_ids TransportError = [] \<and> (status \<noteq> 200 \<longrightarrow> fetch_pmc_ids (Response status p) = []) \<and>
   fetch_pmc_ids (Response status Malformed) = []"
  by (simp add: fetch_pmc_ids_def)

text \<open>
  Claim C2: every failure of the lookup, of the record fetch or of the query runner is
  absorbed and none ends the run. The record fetch does not absorb them: with three
  identifiers found, a transport error on the second fetch leaves the writer as a
  \<^verbatim>\<open>RequestException\<close>, a text that is not well-formed XML leaves it as a
  \<^verbatim>\<open>ParseError\<close>, and the third identifier is never requested.
\<close>

theorem fetch_failure_aborts:
  "fetch_pmc_ids (esearch world_transport) = [''100'', ''200'', ''300''] \<and>
   snd (download_pmc_articles_for_pyserini world_transport) = Some RequestException \<and>
   requests (fst (download_pmc_articles_for_pyserini world_transport)) = [''100'', ''200''] \<and>
   snd (download_pmc_articles_for_pyserini world_malformed) = Some ParseError \<and>
   requests (fst (download_pmc_articles_for_pyserini world_malformed)) = [''100'', ''200'']"
  by code_simp

text \<open>
  Claim C9: a pause between every two consecutive fetches, whether the earlier identifier
  was written or skipped. The code pauses only after a written line: with the identifiers
  200 and 100, where 200 is skipped, 100 is requested with no pause since the request
  for 200.
\<close>

theorem skip_without_pause:
  "process_ids upstream [''200'', ''100''] [] =
     ([Print (Processing ''200''), Get ''200'', Print (Skipping ''200''),
       Print (Processing ''100''), Get ''100'',
       Write (make_doc ''100'' (metadata_of ''100'' record_a) (body_of ''100'' record_a)),
       Print (Added ''PMC100''), Sleep 0.34], None) \<and>
   \<not> throttled True (fst (process_ids upstream [''200'', ''100''] []))"
  by code_simp

section \<open>Properties of the query runner\<close>

text \<open>What holds of the documents already in the map and of those on the lines holds of the loaded map.\<close>

lemma load_docs_invariant:
  assumes "load_docs ls m = Inr (Some m')"
    and "\<And>k d. m k = Some d \<Longrightarrow> P k d"
    and "\<And>i d. Parsed (JDict d) \<in> set ls \<Longrightarrow> map_of d ''id'' = Some (JStr i) \<Longrightarrow> P i d"
    and "m' k = Some d"
  shows "P k d"
  using assms
proof (induction ls arbitrary: m)
  case Nil
  then show ?case by simp
next
  case (Cons l ls)
  have rest: "\<And>i d. Parsed (JDict d) \<in> set ls \<Longrightarrow> map_of d ''id'' = Some (JStr i) \<Longrightarrow> P i d"
    using Cons.prems(3) by simp
  show ?case
  proof (cases l)
    case Malformed
    with Cons.prems(1) show ?thesis by simp
  next
    case (Parsed v)
    show ?thesis
    proof (cases v)
      case (JDict doc)
      note v = this
      show ?thesis
      proof (cases "map_of doc ''id''")
        case None
        with Cons.prems(1) Parsed v show ?thesis by simp
      next
        case (Some x)
        show ?thesis
        proof (cases x)
          case JNull
          with Some Parsed v Cons.prems(1) have "load_docs ls m = Inr (Some m')" by simp
          from Cons.IH [OF this Cons.prems(2) rest Cons.prems(4)] show ?thesis .
        next
          case (JStr i)
          with Some Parsed v Cons.prems(1)
          have l: "load_docs ls (m(i \<mapsto> doc)) = Inr (Some m')" by simp
          have here: "P i doc"
            using Cons.prems(3) [of doc i] Parsed v Some JStr by simp
          have inv: "P k' d'" if "(m(i \<mapsto> doc)) k' = Some d'" for k' d'
          proof (cases "k' = i")
            case True
            with that here show ?thesis by simp
          next
            case False
            with that have "m k' = Some d'" by simp
            then show ?thesis by (rule Cons.prems(2))
          qed
          from Cons.IH [OF l inv rest Cons.prems(4)] show ?thesis .
        next
          case (JList x3)
          with Some Parsed v Cons.prems(1) show ?thesis by simp
        next
          case (JDict x4)
          with Some Parsed v Cons.prems(1) show ?thesis by simp
        qed
      qed
    next
      case JNull
      with Cons.prems(1) Parsed show ?thesis by simp
    next
      case (JStr x)
      with Cons.prems(1) Parsed show ?thesis by simp
    next
      case (JList x)
      with Cons.prems(1) Parsed show ?thesis by simp
    qed
  qed
qed

lemma load_docs_ids:
  assumes "load_docs ls Map.empty = Inr (Some raw_docs)" and "raw_docs k = Some d"
  shows "map_of d ''id'' = Some (JStr k)"
  by (rule load_docs_invariant [where P = "\<lambda>k d. map_of d ''id'' = Some (JStr k)", OF assms(1) _ _ assms(2)])
     simp_all

lemma make_result_fixed:
  "map_of (make_result k h raw_docs) ''rank'' = Some (PInt (int k + 1))"
  "map_of (make_result k h raw_docs) ''doc_id'' = Some (PJson (JStr (docid h)))"
  "map_of (make_result k h raw_docs) ''score'' = Some (PFloat (score h))"
proof -
  show "map_of (make_result k h raw_docs) ''rank'' = Some (PInt (int k + 1))"
    by (cases "raw_docs (docid h)"; cases "the (raw_docs (docid h))") (simp_all add: make_result_def)
  show "map_of (make_result k h raw_docs) ''doc_id'' = Some (PJson (JStr (docid h)))"
    by (cases "raw_docs (docid h)"; cases "the (raw_docs (docid h))") (simp_all add: make_result_def)
  show "map_of (make_result k h raw_docs) ''score'' = Some (PFloat (score h))"
    by (cases "raw_docs (docid h)"; cases "the (raw_docs (docid h))") (simp_all add: make_result_def)
qed

lemma make_result_missing:
  "raw_docs (docid h) = None \<Longrightarrow> make_result k h raw_docs = not_found k h"
  by (simp add: make_result_def not_found_def)

lemma make_result_hit:
  assumes "raw_docs (docid h) = Some doc" "doc \<noteq> []"
  shows "make_result k h raw_docs =
          [(''rank'', PInt (int k + 1)),
           (''doc_id'', PJson (JStr (docid h))),
           (''score'', PFloat (score h)),
           (''date'', get_field doc ''date'' ''[No date]''),
           (''journal_name'', get_field doc ''journal'' ''[No journal]''),
           (''authors'', get_field doc ''authors'' ''[No authors]''),
           (''title'', get_field doc ''title'' ''[No title]''),
           (''abstract'', get_field doc ''abstract'' ''[No abstract]'')]"
proof -
  from assms(2) obtain item items where d: "doc = item # items" by (cases doc) simp_all
  show ?thesis unfolding make_result_def assms(1) d by simp
qed

lemma get_field_stored: "map_of doc key = Some v \<Longrightarrow> get_field doc key dflt = PJson v"
  by (simp add: get_field_def)

lemma make_result_found:
  assumes r: "raw_docs (docid h) = Some doc" and i: "map_of doc ''id'' = Some i"
  shows "joined doc (make_result k h raw_docs)"
proof -
  from i have ne: "doc \<noteq> []" by (cases doc) simp_all
  note m = make_result_hit [of raw_docs h doc k, OF r ne]
  have 1: "map_of (make_result k h raw_docs) ''date'' = Some (PJson v)"
    if "map_of doc ''date'' = Some v" for v
    unfolding m using get_field_stored [OF that] by simp
  have 2: "map_of (make_result k h raw_docs) ''journal_name'' = Some (PJson v)"
    if "map_of doc ''journal'' = Some v" for v
    unfolding m using get_field_stored [OF that] by simp
  have 3: "map_of (make_result k h raw_docs) ''authors'' = Some (PJson v)"
    if "map_of doc ''authors'' = Some v" for v
    unfolding m using get_field_stored [OF that] by simp
  have 4: "map_of (make_result k h raw_docs) ''title'' = Some (PJson v)"
    if "map_of doc ''title'' = Some v" for v
    unfolding m using get_field_stored [OF that] by simp
  have 5: "map_of (make_result k h raw_docs) ''abstract'' = Some (PJson v)"
    if "map_of doc ''abstract'' = Some v" for v
    unfolding m using get_field_stored [OF that] by simp
  have c: "(case x of None \<Rightarrow> True | Some v \<Rightarrow> P v) = (\<forall>v. x = Some v \<longrightarrow> P v)" for x :: "json option" and P
    by (cases x) simp_all
  show ?thesis
    unfolding joined_def c using 1 2 3 4 5 by simp
qed

text \<open>A hit prints when its Document, if it has one, holds a string or a list as abstract.\<close>

lemma print_hit_ok:
  assumes "\<And>doc. raw_docs (docid h) = Some doc \<Longrightarrow> abstract_prints doc"
  shows "print_hit h raw_docs (make_result i h raw_docs) = None"
proof (cases "raw_docs (docid h)")
  case None
  then show ?thesis by (simp add: print_hit_def)
next
  case (Some doc)
  show ?thesis
  proof (cases doc)
    case Nil
    with Some show ?thesis by (simp add: print_hit_def)
  next
    case (Cons item items)
    then have ne: "doc \<noteq> []" by simp
    note m = make_result_hit [of raw_docs h doc i, OF Some ne]
    have a: "map_of (make_result i h raw_docs) ''abstract'' =
        Some (get_field doc ''abstract'' ''[No abstract]'')"
      unfolding m by simp
    have p: "abstract_prints doc" by (rule assms [OF Some])
    show ?thesis
    proof (cases "map_of doc ''abstract''")
      case None
      then have "get_field doc ''abstract'' ''[No abstract]'' = PJson (JStr ''[No abstract]'')"
        by (simp add: get_field_def)
      with a Some Cons show ?thesis by (simp add: print_hit_def)
    next
      case (Some v)
      then have g: "get_field doc ''abstract'' ''[No abstract]'' = PJson v"
        by (rule get_field_stored)
      from p Some have "(\<exists>s. v = JStr s) \<or> (\<exists>xs. v = JList xs)"
        by (cases v) (simp_all add: abstract_prints_def)
      with a g \<open>raw_docs (docid h) = Some doc\<close> Cons show ?thesis
        by (auto simp: print_hit_def)
    qed
  qed
qed

lemma results_loop_eq:
  assumes "\<And>h doc. h \<in> set hits \<Longrightarrow> raw_docs (docid h) = Some doc \<Longrightarrow> abstract_prints doc"
  shows "results_loop i hits raw_docs results =
     Inr (results @ map (\<lambda>(k, h). make_result k h raw_docs) (List.enumerate i hits))"
  using assms
proof (induction hits arbitrary: i results)
  case Nil
  then show ?case by simp
next
  case (Cons h hits)
  have here: "abstract_prints doc" if "raw_docs (docid h) = Some doc" for doc
    using Cons.prems [of h doc] that by simp
  have later: "abstract_prints doc" if "h' \<in> set hits" "raw_docs (docid h') = Some doc" for h' doc
    using Cons.prems [of h' doc] that by simp
  have p: "print_hit h raw_docs (make_result i h raw_docs) = None"
    by (rule print_hit_ok) (rule here)
  have "results_loop (Suc i) hits raw_docs (results @ [make_result i h raw_docs]) =
     Inr ((results @ [make_result i h raw_docs]) @
          map (\<lambda>(k, h). make_result k h raw_docs) (List.enumerate (Suc i) hits))"
    by (rule Cons.IH) (rule later)
  with p show ?case by simp
qed

lemma run_search_loaded:
  assumes "load_docs ls Map.empty = Inr (Some raw_docs)"
    and "\<And>h doc. h \<in> set hits \<Longrightarrow> raw_docs (docid h) = Some doc \<Longrightarrow> abstract_prints doc"
  shows "run_search (Lines ls) (Hits hits) =
     Inr (Some (map (\<lambda>(k, h). make_result k h raw_docs) (List.enumerate 0 hits)))"
  using assms(1) results_loop_eq [of hits raw_docs 0 "[]", OF assms(2)]
  by (simp add: run_search_def)

lemma result_scores_enumerate:
  "result_scores (map (\<lambda>(k, h). make_result k h raw_docs) (List.enumerate i hits)) = map score hits"
proof (induction hits arbitrary: i)
  case Nil
  then show ?case by (simp add: result_scores_def List.map_filter_simps)
next
  case (Cons h hits)
  from Cons [of "Suc i"] show ?case
    by (simp add: result_scores_def List.map_filter_simps make_result_fixed)
qed

lemma load_collection_a: "load_docs collection_a Map.empty = Inr (Some raw_docs_a)"
  by (simp add: collection_a_def raw_docs_a_def make_doc_def)

text \<open>
  Every Document that the writer builds holds a string as abstract, so a collection file
  written by the writer loads into a map whose Documents all print.
\<close>

lemma make_doc_prints: "abstract_prints (dict_of (make_doc pmc_id md full_text))"
  by (simp add: make_doc_def abstract_prints_def)

lemma written_collection_prints:
  assumes "load_docs (map Parsed docs) Map.empty = Inr (Some raw_docs)"
    and "\<And>doc. doc \<in> set docs \<Longrightarrow> \<exists>pmc_id md full_text. doc = make_doc pmc_id md full_text"
    and "raw_docs k = Some d"
  shows "abstract_prints d"
proof (rule load_docs_invariant [where P = "\<lambda>k d. abstract_prints d", OF assms(1) _ _ assms(3)])
  show "\<And>k d. Map.empty k = Some d \<Longrightarrow> abstract_prints d" by simp
next
  fix i d
  assume "Parsed (JDict d) \<in> set (map Parsed docs)"
  then have "JDict d \<in> set docs" by auto
  from assms(2) [OF this] obtain pmc_id md full_text where "JDict d = make_doc pmc_id md full_text"
    by blast
  then have "d = dict_of (make_doc pmc_id md full_text)"
    by (metis dict_of.simps(1))
  then show "abstract_prints d" by (simp add: make_doc_prints)
qed

text \<open>
  A Document with \<^verbatim>\<open>null\<close> as abstract, which the writer never builds, ends the run at
  its hit: the slice on line 316 raises.
\<close>

lemma null_abstract_raises:
  "run_search (Lines collection_null) (Hits [Hit ''PMC1'' 2.1, Hit ''PMC9'' 1.5]) = Inl TypeError"
  by (simp add: run_search_def collection_null_def make_result_def get_field_def print_hit_def)

text \<open>
  Claim C6. For every collection that loads and every sequence of hits, the runner returns
  one result per hit, in the order of the hits: the result at index \<open>k\<close> has rank
  \<open>k + 1\<close>, the identifier and the score of that hit, and the stored date, journal,
  authors, title and abstract of the Document with that identifier in the loaded map. The
  scores of the results are the scores of the hits, in their order; the hits are those of
  the searcher, ranked by descending score, so the results are in descending score order.
  The Documents are those of a collection file: each holds a string as abstract (a list
  prints as well), as every Document built by the writer does, so that line 316 can print it.
  With a collection of three Documents and the hits (PMC100, 2.1) and (PMC300, 1.5), rank 1
  is PMC100 and rank 2 is PMC300.
\<close>

theorem search_results_ranked:
  assumes "load_docs ls Map.empty = Inr (Some raw_docs)"
    and "\<forall>h \<in> set hits. \<forall>doc. raw_docs (docid h) = Some doc \<longrightarrow> abstract_prints doc"
  shows "\<exists>rs. run_search (Lines ls) (Hits hits) = Inr (Some rs) \<and> length rs = length hits \<and>
     (\<forall>k < length hits.
        map_of (rs ! k) ''rank'' = Some (PInt (int k + 1)) \<and>
        map_of (rs ! k) ''doc_id'' = Some (PJson (JStr (docid (hits ! k)))) \<and>
        map_of (rs ! k) ''score'' = Some (PFloat (score (hits ! k))) \<and>
        (\<forall>doc. raw_docs (docid (hits ! k)) = Some doc \<longrightarrow>
           map_of doc ''id'' = Some (JStr (docid (hits ! k))) \<and> joined doc (rs ! k))) \<and>
     result_scores rs = map score hits \<and>
     (sorted_wrt (\<ge>) (map score hits) \<longrightarrow> sorted_wrt (\<ge>) (result_scores rs))"
proof -
  let ?rs = "map (\<lambda>(k, h). make_result k h raw_docs) (List.enumerate 0 hits)"
  have pr: "abstract_prints doc" if "h \<in> set hits" "raw_docs (docid h) = Some doc" for h doc
    using assms(2) that by blast
  have run: "run_search (Lines ls) (Hits hits) = Inr (Some ?rs)"
    by (rule run_search_loaded [OF assms(1) pr])
  have len: "length ?rs = length hits" by simp
  have nth: "?rs ! k = make_result k (hits ! k) raw_docs" if "k < length hits" for k
    using that by (simp add: nth_enumerate_eq)
  have each: "map_of (?rs ! k) ''rank'' = Some (PInt (int k + 1)) \<and>
        map_of (?rs ! k) ''doc_id'' = Some (PJson (JStr (docid (hits ! k)))) \<and>
        map_of (?rs ! k) ''score'' = Some (PFloat (score (hits ! k))) \<and>
        (\<forall>doc. raw_docs (docid (hits ! k)) = Some doc \<longrightarrow>
           map_of doc ''id'' = Some (JStr (docid (hits ! k))) \<and> joined doc (?rs ! k))"
    if k: "k < length hits" for k
  proof -
    have j: "map_of doc ''id'' = Some (JStr (docid (hits ! k))) \<and> joined doc (?rs ! k)"
      if d: "raw_docs (docid (hits ! k)) = Some doc" for doc
    proof -
      have i: "map_of doc ''id'' = Some (JStr (docid (hits ! k)))"
        by (rule load_docs_ids [OF assms(1) d])
      from make_result_found [of raw_docs "hits ! k" doc _ k, OF d i] i show ?thesis
        unfolding nth [OF k] by simp
    qed
    show ?thesis unfolding nth [OF k] using j [unfolded nth [OF k]]
      by (simp add: make_result_fixed)
  qed
  then have all: "\<forall>k < length hits.
        map_of (?rs ! k) ''rank'' = Some (PInt (int k + 1)) \<and>
        map_of (?rs ! k) ''doc_id'' = Some (PJson (JStr (docid (hits ! k)))) \<and>
        map_of (?rs ! k) ''score'' = Some (PFloat (score (hits ! k))) \<and>
        (\<forall>doc. raw_docs (docid (hits ! k)) = Some doc \<longrightarrow>
           map_of doc ''id'' = Some (JStr (docid (hits ! k))) \<and> joined doc (?rs ! k))"
    by blast
  have sc: "result_scores ?rs = map score hits"
    by (rule result_scores_enumerate)
  have srt: "sorted_wrt (\<ge>) (map score hits) \<longrightarrow> sorted_wrt (\<ge>) (result_scores ?rs)"
    unfolding sc by simp
  show ?thesis
    by (rule exI [of _ ?rs]) (intro conjI run len all sc srt)
qed

theorem search_results_ranked_witness:
  "\<exists>rs. run_search (Lines collection_a) (Hits [Hit ''PMC100'' 2.1, Hit ''PMC300'' 1.5]) = Inr (Some rs) \<and>
     length rs = 2 \<and>
     map_of (rs ! 0) ''rank'' = Some (PInt 1) \<and>
     map_of (rs ! 0) ''doc_id'' = Some (PJson (JStr ''PMC100'')) \<and>
     map_of (rs ! 0) ''score'' = Some (PFloat 2.1) \<and>
     map_of (rs ! 0) ''date'' = Some (PJson (JStr (date (metadata_of ''100'' record_a)))) \<and>
     map_of (rs ! 0) ''authors'' =
       Some (PJson (JList (map JStr (authors (metadata_of ''100'' record_a))))) \<and>
     map_of (rs ! 1) ''rank'' = Some (PInt 2) \<and>
     map_of (rs ! 1) ''doc_id'' = Some (PJson (JStr ''PMC300'')) \<and>
     map_of (rs ! 1) ''score'' = Some (PFloat 1.5) \<and>
     map_of (rs ! 1) ''title'' = Some (PJson (json_of_text (title (metadata_of ''300'' record_d)))) \<and>
     sorted_wrt (\<ge>) (result_scores rs)"
proof -
  let ?hits = "[Hit ''PMC100'' 2.1, Hit ''PMC300'' 1.5]"
  let ?d0 = "dict_of (make_doc ''100'' (metadata_of ''100'' record_a) (body_of ''100'' record_a))"
  let ?d1 = "dict_of (make_doc ''300'' (metadata_of ''300'' record_d) (body_of ''300'' record_d))"
  have pr: "\<forall>h \<in> set ?hits. \<forall>doc. raw_docs_a (docid h) = Some doc \<longrightarrow> abstract_prints doc"
    by (auto simp: raw_docs_a_def make_doc_prints split: if_splits)
  from search_results_ranked [OF load_collection_a, of ?hits, OF pr]
  obtain rs where run: "run_search (Lines collection_a) (Hits ?hits) = Inr (Some rs)"
    and len: "length rs = length ?hits"
    and each: "\<forall>k < length ?hits.
        map_of (rs ! k) ''rank'' = Some (PInt (int k + 1)) \<and>
        map_of (rs ! k) ''doc_id'' = Some (PJson (JStr (docid (?hits ! k)))) \<and>
        map_of (rs ! k) ''score'' = Some (PFloat (score (?hits ! k))) \<and>
        (\<forall>doc. raw_docs_a (docid (?hits ! k)) = Some doc \<longrightarrow>
           map_of doc ''id'' = Some (JStr (docid (?hits ! k))) \<and> joined doc (rs ! k))"
    and srt: "sorted_wrt (\<ge>) (map score ?hits) \<longrightarrow> sorted_wrt (\<ge>) (result_scores rs)"
    by blast
  have d0: "raw_docs_a ''PMC100'' = Some ?d0"
    by (simp add: raw_docs_a_def)
  have d1: "raw_docs_a ''PMC300'' = Some ?d1"
    by (simp add: raw_docs_a_def)
  have s: "sorted_wrt (\<ge>) (map score ?hits)" by simp
  from each have k0: "map_of (rs ! 0) ''rank'' = Some (PInt 1) \<and>
     map_of (rs ! 0) ''doc_id'' = Some (PJson (JStr ''PMC100'')) \<and>
     map_of (rs ! 0) ''score'' = Some (PFloat 2.1) \<and> joined ?d0 (rs ! 0)"
    using d0 by (auto dest!: spec [of _ 0])
  from each have k1: "map_of (rs ! 1) ''rank'' = Some (PInt 2) \<and>
     map_of (rs ! 1) ''doc_id'' = Some (PJson (JStr ''PMC300'')) \<and>
     map_of (rs ! 1) ''score'' = Some (PFloat 1.5) \<and> joined ?d1 (rs ! 1)"
    using d1 by (auto dest!: spec [of _ 1])
  from k0 have f0: "map_of (rs ! 0) ''date'' = Some (PJson (JStr (date (metadata_of ''100'' record_a)))) \<and>
     map_of (rs ! 0) ''authors'' =
       Some (PJson (JList (map JStr (authors (metadata_of ''100'' record_a)))))"
    by (simp add: joined_def make_doc_def)
  from k1 have f1: "map_of (rs ! 1) ''title'' =
      Some (PJson (json_of_text (title (metadata_of ''300'' record_d))))"
    by (simp add: joined_def make_doc_def)
  from run len k0 k1 f0 f1 srt s show ?thesis by auto
qed

text \<open>
  Claim C7. A hit whose identifier is not in the loaded map still gives a result, at its
  place among the results of all the hits: its rank, its identifier, its score and the
  marker \<^verbatim>\<open>Not found in local data file\<close> under the key \<^verbatim>\<open>error\<close>, and no other key.
  The run goes on to the end and returns one result per hit. (The Documents found for the
  other hits are those of a collection file, with a string as abstract.)
\<close>

theorem join_miss:
  assumes "load_docs ls Map.empty = Inr (Some raw_docs)"
    and "\<forall>h \<in> set hits. \<forall>doc. raw_docs (docid h) = Some doc \<longrightarrow> abstract_prints doc"
    and "k < length hits" and "raw_docs (docid (hits ! k)) = None"
  shows "\<exists>rs. run_search (Lines ls) (Hits hits) = Inr (Some rs) \<and> length rs = length hits \<and>
     rs ! k = not_found k (hits ! k)"
proof -
  let ?rs = "map (\<lambda>(k, h). make_result k h raw_docs) (List.enumerate 0 hits)"
  have pr: "abstract_prints doc" if "h \<in> set hits" "raw_docs (docid h) = Some doc" for h doc
    using assms(2) that by blast
  have run: "run_search (Lines ls) (Hits hits) = Inr (Some ?rs)"
    by (rule run_search_loaded [OF assms(1) pr])
  have len: "length ?rs = length hits" by simp
  have nf: "?rs ! k = not_found k (hits ! k)"
    using make_result_missing [of raw_docs "hits ! k" k, OF assms(4)] assms(3)
    by (simp add: nth_enumerate_eq)
  show ?thesis
    by (rule exI [of _ ?rs]) (intro conjI run len nf)
qed

theorem join_miss_witness:
  "\<exists>rs. run_search (Lines collection_a) (Hits [Hit ''PMC100'' 1.5, Hit ''PMC400'' 1.2]) = Inr (Some rs) \<and>
     length rs = 2 \<and>
     rs ! 1 = [(''rank'', PInt 2), (''doc_id'', PJson (JStr ''PMC400'')), (''score'', PFloat 1.2),
               (''error'', PJson (JStr ''Not found in local data file''))]"
proof -
  have k: "1 < length [Hit ''PMC100'' 1.5, Hit ''PMC400'' 1.2]" by simp
  have n: "raw_docs_a (docid ([Hit ''PMC100'' 1.5, Hit ''PMC400'' 1.2] ! 1)) = None"
    by (simp add: raw_docs_a_def)
  have pr: "\<forall>h \<in> set [Hit ''PMC100'' 1.5, Hit ''PMC400'' 1.2].
      \<forall>doc. raw_docs_a (docid h) = Some doc \<longrightarrow> abstract_prints doc"
    by (auto simp: raw_docs_a_def make_doc_prints split: if_splits)
  from join_miss [OF load_collection_a pr k n] show ?thesis
    by (simp add: not_found_def numeral_2_eq_2)
qed

section \<open>Properties of the collection file format\<close>








lemma skip_ws_same: "\<not> json_ws c \<Longrightarrow> skip_ws (c # s) = c # s"
  by (simp add: skip_ws_def)























end
